theory Spec2Isabelle
  imports Main "HOL-Library.Sublist" "HOL-Library.AList"
begin

section \<open>Python values, declarations, exceptions\<close>

text \<open>
  The declaration strings of one option (\<^verbatim>\<open>param_decls\<close>, a tuple of str) and its keyword
  attributes (\<^verbatim>\<open>**attrs\<close>, a dict in insertion order). Attribute values are the Python
  values the decorators inspect: None, booleans, strings and classes; of a class only its
  name and whether it derives from \<^verbatim>\<open>GroupedOption\<close> matter.
\<close>

type_synonym decls = "string list"

datatype pyval = PNone | PBool bool | PStr string | PClass string bool

type_synonym attrs = "(string \<times> pyval) list"

text \<open>Every exception the modelled code can raise is a value; \<open>Inl\<close> carries it.\<close>

datatype error = TypeError string | UsageError string | ValueError | KeyError | AttributeError

datatype warning_category = UserWarning | RuntimeWarning

text \<open>
  A command callback is a function object: the dictionaries of the engine are keyed by its
  identity, and error messages read its name when it is known.
\<close>

datatype callback = Callback (cb_ident: nat) (cb_name: "string option")

definition sq :: string where
  "sq = [CHR 0x27]"

definition dq :: string where
  "dq = [CHR 0x22]"

definition nl :: string where
  "nl = [CHR 0x0A]"

fun str_join :: "string \<Rightarrow> string list \<Rightarrow> string" where
  "str_join sep [] = []"
| "str_join sep [x] = x"
| "str_join sep (x # y # ys) = x @ sep @ str_join sep (y # ys)"

text \<open>Python's \<^verbatim>\<open>str(list_of_str)\<close>, as an f-string renders a list of plain strings.\<close>

definition py_repr_list :: "decls \<Rightarrow> string" where
  "py_repr_list ds = ''['' @ str_join '', '' (map (\<lambda>d. sq @ d @ sq) ds) @ '']''"

text \<open>
  Python's \<^verbatim>\<open>s.replace(old, new)\<close>: every non-overlapping occurrence, left to right. With an
  empty \<^verbatim>\<open>old\<close> Python inserts \<^verbatim>\<open>new\<close> before every character and at the end.
\<close>

fun replace_from :: "char \<Rightarrow> string \<Rightarrow> string \<Rightarrow> string \<Rightarrow> string" where
  "replace_from c0 cs0 new [] = []"
| "replace_from c0 cs0 new (c # cs) =
     (if prefix (c0 # cs0) (c # cs) then new @ replace_from c0 cs0 new (drop (length cs0) cs)
      else c # replace_from c0 cs0 new cs)"

definition str_replace :: "string \<Rightarrow> string \<Rightarrow> string \<Rightarrow> string" where
  "str_replace s old new =
     (case old of
        [] \<Rightarrow> new @ concat (map (\<lambda>c. c # new) s)
      | c0 # cs0 \<Rightarrow> replace_from c0 cs0 new s)"

section \<open>The framework's parameters and the decorated function\<close>

text \<open>
  The parameters recorded for a command: a regular option registered by a foreign
  decorator (with its option strings), the placeholder \<^verbatim>\<open>_NotAttachedOption\<close> (registered
  under a fake name, remembering the declarations of the pending option as
  \<^verbatim>\<open>option_decls\<close>), and a grouped option attached to a group (with the back-reference
  to its group, the index of the group among the groups constructed so far).
\<close>

datatype param =
    ClickOption decls
  | NotAttachedOption string decls
  | GroupedOption nat decls attrs

fun param_opts :: "param \<Rightarrow> decls" where
  "param_opts (ClickOption ds) = ds"
| "param_opts (NotAttachedOption fake ds) = [fake]"
| "param_opts (GroupedOption gid ds kw) = ds"

fun is_NotAttachedOption :: "param \<Rightarrow> bool" where
  "is_NotAttachedOption (NotAttachedOption fake ds) = True"
| "is_NotAttachedOption p = False"

text \<open>The attribute \<^verbatim>\<open>option_decls\<close> exists on the placeholder only.\<close>

fun option_decls :: "param \<Rightarrow> error + decls" where
  "option_decls (NotAttachedOption fake ds) = Inr ds"
| "option_decls p = Inl AttributeError"

text \<open>
  The decorated object: its callback and the parameter list recorded for it so far
  (\<^verbatim>\<open>__click_params__\<close> of a function, \<^verbatim>\<open>params\<close> of a command), in the order the
  decorators appended them.
\<close>

record func =
  callback :: callback
  click_params :: "param list"

text \<open>
  Modelled from the spec: \<^verbatim>\<open>get_callback_and_params\<close> of \<^verbatim>\<open>_helpers\<close> (absent), the
  "callback-and-already-declared-parameters accessor usable at decoration time".
\<close>

definition get_callback_and_params :: "func \<Rightarrow> callback \<times> param list" where
  "get_callback_and_params f = (callback f, click_params f)"

text \<open>
  The framework's \<^verbatim>\<open>click.option(...)(func)\<close>: the new parameter is appended to the
  recorded list and the same function is returned.
\<close>

definition click_option :: "param \<Rightarrow> func \<Rightarrow> func" where
  "click_option p f = f\<lparr>click_params := click_params f @ [p]\<rparr>"

text \<open>
  Modelled from the spec: \<^verbatim>\<open>raise_mixing_decorators_error\<close> of \<^verbatim>\<open>_helpers\<close> (absent). The
  message is "Check decorator position for [<decls>] option", suffixed "in '<command>'" when
  the command name is known; \<^verbatim>\<open>[<decls>]\<close> is the Python rendering of the option strings
  of the option it is given.
\<close>

definition mixing_message :: "param \<Rightarrow> callback \<Rightarrow> string" where
  "mixing_message p cb =
     ''Check decorator position for '' @ py_repr_list (param_opts p) @ '' option''
       @ (case cb_name cb of None \<Rightarrow> [] | Some n \<Rightarrow> '' in '' @ sq @ n @ sq)"

definition raise_mixing_decorators_error :: "param \<Rightarrow> callback \<Rightarrow> error" where
  "raise_mixing_decorators_error wrong_option cb = TypeError (mixing_message wrong_option cb)"

section \<open>The group entity\<close>

datatype policy = NoConstraint | RequireAny | RequireAll | MutuallyExclusive | RequireMutuallyExclusive

record grouped_option =
  opt_name :: string
  opt_decls :: decls
  opt_attrs :: attrs

record option_group =
  group_name :: string
  group_help :: string
  group_policy :: policy
  group_options :: "grouped_option list"

text \<open>
  A class passed as \<^verbatim>\<open>cls\<close>: its \<^verbatim>\<open>__name__\<close>, whether it derives from \<^verbatim>\<open>OptionGroup\<close>,
  and its constructor, called as \<^verbatim>\<open>cls(name, **attrs)\<close>.
\<close>

record py_class =
  cls_name :: string
  subclass_of_OptionGroup :: bool
  cls_new :: "string option \<Rightarrow> attrs \<Rightarrow> error + option_group"

text \<open>
  Modelled from the spec: the constructor of the group classes of \<^verbatim>\<open>_core\<close> (absent). It
  takes the name and the help; an unexpected keyword attribute is the argument error of
  the Python runtime. The tests have \<^verbatim>\<open>OptionGroup()\<close> with name and help both empty.
\<close>

definition OptionGroup_init :: "policy \<Rightarrow> string option \<Rightarrow> attrs \<Rightarrow> error + option_group" where
  "OptionGroup_init p name kw =
     (case filter (\<lambda>k. k \<noteq> ''help'') (map fst kw) of
        k # ks \<Rightarrow> Inl (TypeError (''__init__() got an unexpected keyword argument '' @ sq @ k @ sq))
      | [] \<Rightarrow> Inr \<lparr>group_name = (case name of None \<Rightarrow> [] | Some n \<Rightarrow> n),
                  group_help = (case map_of kw ''help'' of Some (PStr h) \<Rightarrow> h | _ \<Rightarrow> []),
                  group_policy = p, group_options = []\<rparr>)"

definition OptionGroup :: py_class where
  "OptionGroup = \<lparr>cls_name = ''OptionGroup'', subclass_of_OptionGroup = True,
                  cls_new = OptionGroup_init NoConstraint\<rparr>"

definition RequiredAnyOptionGroup :: py_class where
  "RequiredAnyOptionGroup = \<lparr>cls_name = ''RequiredAnyOptionGroup'', subclass_of_OptionGroup = True,
                  cls_new = OptionGroup_init RequireAny\<rparr>"

definition RequiredAllOptionGroup :: py_class where
  "RequiredAllOptionGroup = \<lparr>cls_name = ''RequiredAllOptionGroup'', subclass_of_OptionGroup = True,
                  cls_new = OptionGroup_init RequireAll\<rparr>"

definition MutuallyExclusiveOptionGroup :: py_class where
  "MutuallyExclusiveOptionGroup = \<lparr>cls_name = ''MutuallyExclusiveOptionGroup'',
                  subclass_of_OptionGroup = True, cls_new = OptionGroup_init MutuallyExclusive\<rparr>"

definition RequiredMutuallyExclusiveOptionGroup :: py_class where
  "RequiredMutuallyExclusiveOptionGroup = \<lparr>cls_name = ''RequiredMutuallyExclusiveOptionGroup'',
                  subclass_of_OptionGroup = True, cls_new = OptionGroup_init RequireMutuallyExclusive\<rparr>"

text \<open>The builtin \<^verbatim>\<open>object\<close>, which the tests pass as a wrong \<^verbatim>\<open>cls\<close>.\<close>

definition object_cls :: py_class where
  "object_cls = \<lparr>cls_name = ''object'', subclass_of_OptionGroup = False,
                 cls_new = (\<lambda>name kw. Inl (TypeError ''object() takes no arguments''))\<rparr>"

text \<open>
  Modelled from the spec: the attributes a policy forbids on its member options. The spec
  names \<^verbatim>\<open>required\<close> for the two exclusivity policies and nothing for the default; for
  require-any and require-all the test \<^verbatim>\<open>test_forbidden_option_attrs\<close> has it too.
\<close>

fun forbidden_option_attrs :: "policy \<Rightarrow> string list" where
  "forbidden_option_attrs NoConstraint = []"
| "forbidden_option_attrs p = [''required'']"

text \<open>The name of the class of \<^verbatim>\<open>_core\<close> that carries a policy, as the tests import it.\<close>

fun policy_cls_name :: "policy \<Rightarrow> string" where
  "policy_cls_name NoConstraint = ''OptionGroup''"
| "policy_cls_name RequireAny = ''RequiredAnyOptionGroup''"
| "policy_cls_name RequireAll = ''RequiredAllOptionGroup''"
| "policy_cls_name MutuallyExclusive = ''MutuallyExclusiveOptionGroup''"
| "policy_cls_name RequireMutuallyExclusive = ''RequiredMutuallyExclusiveOptionGroup''"

text \<open>
  Modelled from the spec: the destination name the framework derives from the
  declarations of an option (external; the spec shows \<^verbatim>\<open>--foo\<close> bound to \<^verbatim>\<open>foo\<close>): here the
  first declaration without its leading dashes.
\<close>

definition dest_name :: "decls \<Rightarrow> string" where
  "dest_name ds = (case ds of [] \<Rightarrow> [] | d # ds' \<Rightarrow> dropWhile (\<lambda>c. c = CHR ''-'') d)"

text \<open>
  Modelled from the spec: \<^verbatim>\<open>OptionGroup.option(*decls, **attrs)(func)\<close> of \<^verbatim>\<open>_core\<close> (absent),
  the attach operation: it "constructs a grouped-option immediately, validates its type and
  forbidden attributes against the policy immediately", adds it to the options of the group
  and registers it with the framework. The options of a group are a sequence in declaration
  order (spec 3), and the name of a nameless group joins the destination names in that
  order (spec 6). Decorators fire bottom-up, so the option attached later is the one
  declared earlier: it takes its place before the options attached so far. The tests fix
  this reading: \<^verbatim>\<open>@group.option('--foo1')\<close> above \<^verbatim>\<open>@group.option('--bar1')\<close> is to render
  \<^verbatim>\<open>(foo1|bar1)\<close> (\<^verbatim>\<open>test_group_context_second_api\<close>), and \<^verbatim>\<open>test_default_group_name\<close>
  has \<^verbatim>\<open>(foo|bar)\<close>. The group entity is passed and returned updated; \<open>gid\<close> is the
  back-reference the new option carries. What else \<^verbatim>\<open>_core\<close> registers with the framework
  for a group is not in the repository's files; no statement below is about the
  parameters an attached function carries.
\<close>

definition OptionGroup_option ::
  "nat \<Rightarrow> option_group \<Rightarrow> decls \<Rightarrow> attrs \<Rightarrow> func \<Rightarrow> error + (func \<times> option_group)" where
  "OptionGroup_option gid g ds kw f =
     (if (case map_of kw ''cls'' of None \<Rightarrow> False | Some (PClass n ok) \<Rightarrow> \<not> ok | Some v \<Rightarrow> True)
      then Inl (TypeError (sq @ ''cls'' @ sq @ '' argument must be a subclass of '' @ sq @ ''GroupedOption'' @ sq @ '' class.''))
      else case filter (\<lambda>a. a \<in> set (map fst kw)) (forbidden_option_attrs (group_policy g)) of
        a # as \<Rightarrow> Inl (TypeError (sq @ a @ sq @ '' attribute is not allowed for '' @ sq
                              @ policy_cls_name (group_policy g) @ sq @ '' options''))
      | [] \<Rightarrow> Inr (click_option (GroupedOption gid ds kw) f,
                  g\<lparr>group_options := \<lparr>opt_name = dest_name ds, opt_decls = ds, opt_attrs = kw\<rparr> # group_options g\<rparr>))"

section \<open>The declarative registration engine (\<^verbatim>\<open>_decorators.py\<close>)\<close>

record OptionStackItem =
  param_decls :: decls
  attrs :: attrs
  param_count :: nat

text \<open>
  The state the decorators work on: the two dictionaries of the \<^verbatim>\<open>_OptGroup\<close> instance
  (both a \<^verbatim>\<open>defaultdict(list)\<close>, keyed by callback), the warnings emitted so far and the
  group entities constructed so far.
\<close>

record world =
  decorating_state :: "callback \<rightharpoonup> OptionStackItem list"
  not_attached_options :: "callback \<rightharpoonup> param list"
  emitted :: "(warning_category \<times> string) list"
  groups :: "option_group list"

definition init_world :: world where
  "init_world = \<lparr>decorating_state = Map.empty, not_attached_options = Map.empty,
                 emitted = [], groups = []\<rparr>"

text \<open>Reading \<^verbatim>\<open>d[key]\<close> of a \<^verbatim>\<open>defaultdict(list)\<close>: a missing key is created with \<^verbatim>\<open>[]\<close>.\<close>

definition dd_get :: "('k \<rightharpoonup> 'v list) \<Rightarrow> 'k \<Rightarrow> 'v list \<times> ('k \<rightharpoonup> 'v list)" where
  "dd_get d k = (case d k of None \<Rightarrow> ([], d(k \<mapsto> [])) | Some v \<Rightarrow> (v, d))"

definition filter_not_attached :: "param list \<Rightarrow> param list" where
  "filter_not_attached options = filter (\<lambda>opt. \<not> is_NotAttachedOption opt) options"

definition check_mixing_decorators :: "callback \<Rightarrow> OptionStackItem list \<Rightarrow> param list \<Rightarrow> error + unit" where
  "check_mixing_decorators cb options_stack params =
     (if options_stack \<noteq> [] then
        (let last_state = last options_stack in
         if length params > param_count last_state
         then Inl (raise_mixing_decorators_error (last params) cb)
         else Inr ())
      else Inr ())"

text \<open>
  \<^verbatim>\<open>_add_not_attached_option\<close>: the placeholder is registered with the framework under the
  fake name (\<^verbatim>\<open>get_fake_option_name()\<close> draws it at random: it is an input here), and the
  last recorded parameter is appended to the list of not attached options of the callback.
\<close>

definition add_not_attached_option :: "string \<Rightarrow> func \<Rightarrow> decls \<Rightarrow> world \<Rightarrow> func \<times> world" where
  "add_not_attached_option fake f ds w =
     (let f' = click_option (NotAttachedOption fake ds) f;
          (cb, params) = get_callback_and_params f';
          (l, d) = dd_get (not_attached_options w) cb
      in (f', w\<lparr>not_attached_options := d(cb \<mapsto> l @ [last params])\<rparr>))"

text \<open>The decorator returned by \<^verbatim>\<open>_OptGroup.option(*param_decls, **attrs)\<close>.\<close>

definition option_decorator ::
  "string \<Rightarrow> decls \<Rightarrow> attrs \<Rightarrow> func \<Rightarrow> world \<Rightarrow> (error + func) \<times> world" where
  "option_decorator fake ds kw f w =
     (let (cb, params0) = get_callback_and_params f;
          (option_stack, d) = dd_get (decorating_state w) cb;
          w1 = w\<lparr>decorating_state := d\<rparr>;
          params = filter_not_attached params0
      in case check_mixing_decorators cb option_stack params of
           Inl e \<Rightarrow> (Inl e, w1)
         | Inr u \<Rightarrow>
             (let (f', w2) = add_not_attached_option fake f ds w1
              in (Inr f', w2\<lparr>decorating_state := (decorating_state w2)
                     (cb \<mapsto> option_stack @ [\<lparr>param_decls = ds, attrs = kw, param_count = length params\<rparr>])\<rparr>)))"

text \<open>
  \<^verbatim>\<open>[params.remove(opt) for opt in ...]\<close>: \<^verbatim>\<open>list.remove\<close> takes out the first element
  equal to \<^verbatim>\<open>opt\<close> and raises ValueError when there is none. The framework's options compare
  by identity; placeholders that are equal as values here are interchangeable in the list.
\<close>

fun remove_params :: "param list \<Rightarrow> param list \<Rightarrow> error + param list" where
  "remove_params [] params = Inr params"
| "remove_params (opt # opts) params =
     (if opt \<in> set params then remove_params opts (remove1 opt params) else Inl ValueError)"

text \<open>The loop \<^verbatim>\<open>for item in option_stack: func = option_group.option(...)(func)\<close>.\<close>

fun attach_all ::
  "nat \<Rightarrow> OptionStackItem list \<Rightarrow> func \<Rightarrow> option_group \<Rightarrow> error + (func \<times> option_group)" where
  "attach_all gid [] f g = Inr (f, g)"
| "attach_all gid (item # items) f g =
     (case OptionGroup_option gid g (param_decls item) (attrs item) f of
        Inl e \<Rightarrow> Inl e
      | Inr (f', g') \<Rightarrow> attach_all gid items f' g')"


text \<open>The value \<^verbatim>\<open>attrs['help'] = help\<close> stores: the help text or None.\<close>

definition help_value :: "string option \<Rightarrow> pyval" where
  "help_value help = (case help of None \<Rightarrow> PNone | Some h \<Rightarrow> PStr h)"

definition empty_group_warning :: "string option \<Rightarrow> string" where
  "empty_group_warning name =
     ''The empty option group''
       @ (case name of None \<Rightarrow> [] | Some n \<Rightarrow> if n = [] then [] else '' '' @ dq @ n @ dq)
       @ '' was found. The group will not be added.''"

text \<open>
  The decorator returned by \<^verbatim>\<open>_OptGroup.group\<close>, for the class the factory settled on.
  The group the constructor returns is kept local while the options are attached and
  enters the store at the end; an exception leaves it unreachable.
\<close>

definition group_decorator ::
  "string option \<Rightarrow> py_class \<Rightarrow> string option \<Rightarrow> attrs \<Rightarrow> func \<Rightarrow> world \<Rightarrow> (error + func) \<times> world" where
  "group_decorator name cls help kw f w =
     (let (cb, params) = get_callback_and_params f in
      case decorating_state w cb of
        None \<Rightarrow> (Inr f, w\<lparr>emitted := emitted w @ [(UserWarning, empty_group_warning name)]\<rparr>)
      | Some option_stack \<Rightarrow>
          (let w1 = w\<lparr>decorating_state := (decorating_state w)(cb := None)\<rparr> in
           case not_attached_options w1 cb of
             None \<Rightarrow> (Inl KeyError, w1)
           | Some na \<Rightarrow>
               (let w2 = w1\<lparr>not_attached_options := (not_attached_options w1)(cb := None)\<rparr> in
                case remove_params na params of
                  Inl e \<Rightarrow> (Inl e, w2)
                | Inr params' \<Rightarrow>
                    (case check_mixing_decorators cb option_stack (filter_not_attached params') of
                       Inl e \<Rightarrow> (Inl e, w2)
                     | Inr u \<Rightarrow>
                         (case cls_new cls name (AList.update ''help'' (help_value help) kw) of
                            Inl (TypeError m) \<Rightarrow>
                              (Inl (TypeError (str_replace m ''__init__()'' (sq @ cls_name cls @ sq @ '' constructor''))), w2)
                          | Inl e \<Rightarrow> (Inl e, w2)
                          | Inr option_group \<Rightarrow>
                              (case attach_all (length (groups w2)) option_stack (f\<lparr>click_params := params'\<rparr>) option_group of
                                 Inl e \<Rightarrow> (Inl e, w2)
                               | Inr (f', g') \<Rightarrow> (Inr f', w2\<lparr>groups := groups w2 @ [g']\<rparr>)))))))"

text \<open>
  \<^verbatim>\<open>_OptGroup.group(name, cls=, help=, **attrs)\<close>: the factory checks the class and returns
  the decorator; \<^verbatim>\<open>_OptGroup.__call__(name, help, cls, **attrs)\<close> passes its arguments on.
\<close>

definition group ::
  "string option \<Rightarrow> py_class option \<Rightarrow> string option \<Rightarrow> attrs
    \<Rightarrow> error + (func \<Rightarrow> world \<Rightarrow> (error + func) \<times> world)" where
  "group name cls help kw =
     (case cls of
        None \<Rightarrow> Inr (group_decorator name OptionGroup help kw)
      | Some c \<Rightarrow>
          if \<not> subclass_of_OptionGroup c
          then Inl (TypeError (sq @ ''cls'' @ sq @ '' must be a subclass of '' @ sq @ ''OptionGroup'' @ sq @ '' class.''))
          else Inr (group_decorator name c help kw))"

definition optgroup_call ::
  "string option \<Rightarrow> string option \<Rightarrow> py_class option \<Rightarrow> attrs
    \<Rightarrow> error + (func \<Rightarrow> world \<Rightarrow> (error + func) \<times> world)" where
  "optgroup_call name help cls kw = group name cls help kw"

section \<open>Python's decorator lists\<close>

text \<open>
  A decorator list as it reads in the program, top to bottom. Python evaluates the
  decorator expressions top to bottom (which calls the factories) and then applies the
  decorators bottom-up, the one nearest the function first.
\<close>

datatype decorator_expr =
    click_option_at decls
  | optgroup_option_at string decls attrs
  | optgroup_group_at "string option" "py_class option" "string option" attrs
  | optgroup_call_at "string option" "string option" "py_class option" attrs

type_synonym decorator = "func \<Rightarrow> world \<Rightarrow> (error + func) \<times> world"

fun make_decorator :: "decorator_expr \<Rightarrow> error + decorator" where
  "make_decorator (click_option_at ds) = Inr (\<lambda>f w. (Inr (click_option (ClickOption ds) f), w))"
| "make_decorator (optgroup_option_at fake ds kw) = Inr (option_decorator fake ds kw)"
| "make_decorator (optgroup_group_at name cls help kw) = group name cls help kw"
| "make_decorator (optgroup_call_at name help cls kw) = optgroup_call name help cls kw"

fun make_all :: "decorator_expr list \<Rightarrow> error + decorator list" where
  "make_all [] = Inr []"
| "make_all (e # es) =
     (case make_decorator e of
        Inl err \<Rightarrow> Inl err
      | Inr d \<Rightarrow> (case make_all es of Inl err \<Rightarrow> Inl err | Inr ds \<Rightarrow> Inr (d # ds)))"

fun apply_all :: "decorator list \<Rightarrow> func \<Rightarrow> world \<Rightarrow> (error + func) \<times> world" where
  "apply_all [] f w = (Inr f, w)"
| "apply_all (d # ds) f w =
     (case apply_all ds f w of
        (Inl err, w') \<Rightarrow> (Inl err, w')
      | (Inr f', w') \<Rightarrow> d f' w')"

definition decorate :: "decorator_expr list \<Rightarrow> func \<Rightarrow> world \<Rightarrow> (error + func) \<times> world" where
  "decorate es f w = (case make_all es of Inl err \<Rightarrow> (Inl err, w) | Inr ds \<Rightarrow> apply_all ds f w)"

text \<open>A grouped-option declaration as the engine keeps it: fake name drawn, declarations, attributes.\<close>

type_synonym pending = "string \<times> decls \<times> attrs"

definition pending_expr :: "pending \<Rightarrow> decorator_expr" where
  "pending_expr p = (case p of (fake, ds, kw) \<Rightarrow> optgroup_option_at fake ds kw)"

definition pending_placeholder :: "pending \<Rightarrow> param" where
  "pending_placeholder p = (case p of (fake, ds, kw) \<Rightarrow> NotAttachedOption fake ds)"

definition pending_item :: "nat \<Rightarrow> pending \<Rightarrow> OptionStackItem" where
  "pending_item n p = (case p of (fake, ds, kw) \<Rightarrow> \<lparr>param_decls = ds, attrs = kw, param_count = n\<rparr>)"

definition pending_decls :: "pending \<Rightarrow> decls" where
  "pending_decls p = (case p of (fake, ds, kw) \<Rightarrow> ds)"

text \<open>
  The decorator of one grouped-option declaration, and the state a run of grouped-option
  decorators leaves for a callback that had nothing pending: the stack and the list of
  placeholders in the order the decorators fired, the reverse of the order they read.
\<close>

definition pending_decorator :: "pending \<Rightarrow> decorator" where
  "pending_decorator p = (case p of (fake, ds, kw) \<Rightarrow> option_decorator fake ds kw)"

definition pending_world :: "callback \<Rightarrow> nat \<Rightarrow> pending list \<Rightarrow> world \<Rightarrow> world" where
  "pending_world cb n os w =
     (if os = [] then w
      else w\<lparr>decorating_state := (decorating_state w)(cb \<mapsto> rev (map (pending_item n) os)),
             not_attached_options := (not_attached_options w)(cb \<mapsto> rev (map pending_placeholder os))\<rparr>)"

text \<open>The decorator of a foreign option declaration.\<close>

definition click_decorator :: "decls \<Rightarrow> decorator" where
  "click_decorator ds = (\<lambda>f w. (Inr (click_option (ClickOption ds) f), w))"

text \<open>
  The declarations of the grouped options of a decorator list, in the order they read, top
  to bottom.
\<close>

fun visible_grouped_decls :: "decorator_expr list \<Rightarrow> decls list" where
  "visible_grouped_decls [] = []"
| "visible_grouped_decls (optgroup_option_at fake ds kw # es) = ds # visible_grouped_decls es"
| "visible_grouped_decls (e # es) = visible_grouped_decls es"

section \<open>The not-attached marker (\<^verbatim>\<open>_NotAttachedOption\<close>)\<close>

record click_context =
  command_name :: string
  command_callback :: callback

text \<open>
  The loop of \<^verbatim>\<open>_raise_error\<close>. \<open>get_error_hint ds\<close> stands for the framework's
  \<^verbatim>\<open>click.Option(decls).get_error_hint(ctx)\<close>, which renders the declarations of an option
  or raises on declarations the framework rejects.
\<close>

fun error_hint_lines :: "(decls \<Rightarrow> error + string) \<Rightarrow> param list \<Rightarrow> string \<Rightarrow> error + string" where
  "error_hint_lines get_error_hint [] options_error_hint = Inr options_error_hint"
| "error_hint_lines get_error_hint (opt # opts) options_error_hint =
     (case option_decls opt of
        Inl e \<Rightarrow> Inl e
      | Inr ds \<Rightarrow>
          (case get_error_hint ds of
             Inl e \<Rightarrow> Inl e
           | Inr h \<Rightarrow> error_hint_lines get_error_hint opts (options_error_hint @ ''  '' @ h @ nl)))"

definition missing_group_message :: "string \<Rightarrow> string \<Rightarrow> string" where
  "missing_group_message cmd options_error_hint =
     ''Missing option group decorator in '' @ sq @ cmd @ sq
       @ '' command for the following grouped options:'' @ nl @ options_error_hint @ nl"

text \<open>\<^verbatim>\<open>_raise_error\<close> never returns: its result is the exception, and the state it leaves.\<close>

definition raise_error :: "(decls \<Rightarrow> error + string) \<Rightarrow> world \<Rightarrow> click_context \<Rightarrow> error \<times> world" where
  "raise_error get_error_hint w ctx =
     (let (na, d) = dd_get (not_attached_options w) (command_callback ctx);
          w' = w\<lparr>not_attached_options := d\<rparr>
      in case error_hint_lines get_error_hint (rev na) [] of
           Inl e \<Rightarrow> (e, w')
         | Inr options_error_hint \<Rightarrow>
             (TypeError (missing_group_message (command_name ctx) (butlast options_error_hint)), w'))"

definition handle_parse_result ::
  "(decls \<Rightarrow> error + string) \<Rightarrow> world \<Rightarrow> click_context \<Rightarrow> (string \<rightharpoonup> pyval) \<Rightarrow> string list
     \<Rightarrow> (error + unit) \<times> world" where
  "handle_parse_result get_error_hint w ctx opts args =
     (case raise_error get_error_hint w ctx of (e, w') \<Rightarrow> (Inl e, w'))"

definition get_help_record ::
  "(decls \<Rightarrow> error + string) \<Rightarrow> world \<Rightarrow> click_context \<Rightarrow> (error + unit) \<times> world" where
  "get_help_record get_error_hint w ctx =
     (case raise_error get_error_hint w ctx of (e, w') \<Rightarrow> (Inl e, w'))"

text \<open>The listing the message holds for declarations given in the order they are to be listed.\<close>

definition hint_listing :: "string list \<Rightarrow> string" where
  "hint_listing hs = butlast (concat (map (\<lambda>h. ''  '' @ h @ nl) hs))"

text \<open>
  A rendering for \<^verbatim>\<open>get_error_hint\<close> in the programs of the tests: the declarations
  quoted and joined, as the framework prints them.
\<close>

definition click_error_hint :: "decls \<Rightarrow> error + string" where
  "click_error_hint ds = Inr (str_join '' / '' (map (\<lambda>d. sq @ d @ sq) ds))"

section \<open>Constraint policies\<close>

text \<open>
  Modelled from the spec: the validation of a group under its policy, of \<^verbatim>\<open>_core\<close> (absent;
  only its tests are in the repository). The resolved values map a destination name to a
  value or to nothing; a member option has a present value when its destination name is
  mapped.
\<close>

type_synonym resolved_values = "string \<rightharpoonup> pyval"

definition present :: "resolved_values \<Rightarrow> grouped_option \<Rightarrow> bool" where
  "present vals opt = (vals (opt_name opt) \<noteq> None)"

text \<open>Modelled from the spec: a nameless group is named by its members' destination names.\<close>

definition default_name :: "option_group \<Rightarrow> string" where
  "default_name g = ''('' @ str_join ''|'' (map opt_name (group_options g)) @ '')''"

definition display_name :: "option_group \<Rightarrow> string" where
  "display_name g = (if group_name g = [] then default_name g else sq @ group_name g @ sq)"

text \<open>Modelled from the spec: the declaration hints of the listed options, quoted, one option a line.\<close>

definition option_hint :: "grouped_option \<Rightarrow> string" where
  "option_hint opt = str_join '' / '' (map (\<lambda>d. dq @ d @ dq) (opt_decls opt))"

definition options_hint :: "grouped_option list \<Rightarrow> string" where
  "options_hint opts = concat (map (\<lambda>opt. nl @ ''  '' @ option_hint opt) opts)"

definition validate_require_any :: "option_group \<Rightarrow> resolved_values \<Rightarrow> error + unit" where
  "validate_require_any g vals =
     (if filter (present vals) (group_options g) = []
      then Inl (UsageError (''Missing one of the required options:'' @ options_hint (group_options g)))
      else Inr ())"

definition validate_require_all :: "option_group \<Rightarrow> resolved_values \<Rightarrow> error + unit" where
  "validate_require_all g vals =
     (let missing = filter (\<lambda>opt. \<not> present vals opt) (group_options g)
      in if missing = [] then Inr ()
         else Inl (UsageError (''Missing required options from '' @ display_name g
                                 @ '' option group:'' @ options_hint missing)))"

definition validate_mutually_exclusive :: "option_group \<Rightarrow> resolved_values \<Rightarrow> error + unit" where
  "validate_mutually_exclusive g vals =
     (let given = filter (present vals) (group_options g)
      in if length given > 1
         then Inl (UsageError (''The given mutually exclusive options cannot be used at the same time:''
                                 @ options_hint given))
         else Inr ())"

text \<open>The composed policy: the exclusivity rule first, then the requirement of one.\<close>

definition validate_require_mutually_exclusive :: "option_group \<Rightarrow> resolved_values \<Rightarrow> error + unit" where
  "validate_require_mutually_exclusive g vals =
     (case validate_mutually_exclusive g vals of
        Inl e \<Rightarrow> Inl e
      | Inr u \<Rightarrow>
          if filter (present vals) (group_options g) = []
          then Inl (UsageError (''Missing one of the required mutually exclusive options:''
                                  @ options_hint (group_options g)))
          else Inr ())"

definition validate :: "option_group \<Rightarrow> resolved_values \<Rightarrow> error + unit" where
  "validate g vals =
     (case group_policy g of
        NoConstraint \<Rightarrow> Inr ()
      | RequireAny \<Rightarrow> validate_require_any g vals
      | RequireAll \<Rightarrow> validate_require_all g vals
      | MutuallyExclusive \<Rightarrow> validate_mutually_exclusive g vals
      | RequireMutuallyExclusive \<Rightarrow> validate_require_mutually_exclusive g vals)"

text \<open>
  Modelled from the spec: the framework boundary. A usage error ends the process with
  status 2, a passed validation lets the command run to status 0, any other exception is
  not caught.
\<close>

datatype outcome = Exit nat | Crash error

definition run_validated :: "option_group \<Rightarrow> resolved_values \<Rightarrow> outcome" where
  "run_validated g vals =
     (case validate g vals of
        Inr u \<Rightarrow> Exit 0
      | Inl (UsageError m) \<Rightarrow> Exit 2
      | Inl e \<Rightarrow> Crash e)"

text \<open>The number of member options of a group that have a present value.\<close>

definition present_count :: "option_group \<Rightarrow> resolved_values \<Rightarrow> nat" where
  "present_count g vals = card {i. i < length (group_options g) \<and> present vals (group_options g ! i)}"

section \<open>The programs of the tests\<close>

definition cli :: func where
  "cli = \<lparr>callback = Callback 0 (Some ''cli''), click_params = []\<rparr>"


text \<open>\<^verbatim>\<open>test_missing_group_decl_first_api\<close>: two grouped options and no group decorator.\<close>

definition test_missing_group_decl :: "decorator_expr list" where
  "test_missing_group_decl =
     [click_option_at [''--hello1''],
      optgroup_option_at ''--fake-a'' [''--foo''] [],
      optgroup_option_at ''--fake-b'' [''--bar''] [],
      click_option_at [''--hello2'']]"

definition cli_context :: click_context where
  "cli_context = \<lparr>command_name = ''cli'', command_callback = Callback 0 (Some ''cli'')\<rparr>"

text \<open>
  Decorator lists after \<^verbatim>\<open>test_mix_decl_first_api\<close>, up to the decorator that is to fire next:
  a foreign option above one grouped option, one grouped option alone, and a foreign option
  above two grouped options.
\<close>

definition test_mix_decl_below :: "decorator_expr list" where
  "test_mix_decl_below = [click_option_at [''--hello''], optgroup_option_at ''--fake-b'' [''--bar''] []]"

definition test_pending_only :: "decorator_expr list" where
  "test_pending_only = [optgroup_option_at ''--fake-b'' [''--bar''] []]"

definition test_mix_decl_top :: "decorator_expr list" where
  "test_mix_decl_top =
     [click_option_at [''--hello''],
      optgroup_option_at ''--fake-a'' [''--foo''] [],
      optgroup_option_at ''--fake-b'' [''--bar''] []]"

text \<open>A function three foreign option decorators were applied to.\<close>

definition three_foreign :: func where
  "three_foreign = click_option (ClickOption [''--a'']) (click_option (ClickOption [''--b''])
                     (click_option (ClickOption [''--c'']) cli))"

text \<open>
  \<^verbatim>\<open>test_missing_grouped_options_decl_first_api\<close> (a group declared over no grouped
  option), \<^verbatim>\<open>test_option_group_unexpected_arguments\<close> and
  \<^verbatim>\<open>test_incorrect_option_group_cls\<close>.
\<close>

definition test_missing_grouped_options :: "decorator_expr list" where
  "test_missing_grouped_options =
     [click_option_at [''--hello1''],
      optgroup_call_at (Some ''Group 1'') (Some ''Group 1 description'') None [],
      click_option_at [''--hello2'']]"

definition test_unexpected_arguments :: "decorator_expr list" where
  "test_unexpected_arguments =
     [optgroup_call_at None None None [(''oops'', PBool True)],
      optgroup_option_at ''--fake-a'' [''--foo''] []]"

definition test_incorrect_cls :: "decorator_expr list" where
  "test_incorrect_cls =
     [optgroup_call_at None None (Some object_cls) [],
      optgroup_option_at ''--fake-a'' [''--foo''] []]"

text \<open>\<^verbatim>\<open>test_basic_functionality_first_api\<close>: two groups between foreign options.\<close>

definition test_basic_functionality :: "decorator_expr list" where
  "test_basic_functionality =
     [click_option_at [''--hello''],
      optgroup_call_at (Some ''Group 1'') (Some ''Group 1 description'') None [],
      optgroup_option_at ''--fake-a'' [''--foo1''] [],
      optgroup_option_at ''--fake-b'' [''--bar1''] [],
      click_option_at [''--lol''],
      optgroup_group_at (Some ''Group 2'') None (Some ''Group 2 description'') [],
      optgroup_option_at ''--fake-c'' [''--foo2''] [],
      optgroup_option_at ''--fake-d'' [''--bar2''] [],
      click_option_at [''--goodbye'']]"

text \<open>
  The groups of the policy tests: a nameless group of the given policy over options
  \<^verbatim>\<open>--foo\<close>, \<^verbatim>\<open>--bar\<close>, ... bound to the destinations \<^verbatim>\<open>foo\<close>, \<^verbatim>\<open>bar\<close>, ...
\<close>

definition member_option :: "string \<Rightarrow> grouped_option" where
  "member_option n = \<lparr>opt_name = n, opt_decls = [''--'' @ n], opt_attrs = []\<rparr>"

definition test_group :: "policy \<Rightarrow> string list \<Rightarrow> option_group" where
  "test_group p ns = \<lparr>group_name = [], group_help = [], group_policy = p,
                       group_options = map member_option ns\<rparr>"

section \<open>A run of grouped-option decorators\<close>

lemma filter_not_attached_append [simp]:
  "filter_not_attached (xs @ ys) = filter_not_attached xs @ filter_not_attached ys"
  by (simp add: filter_not_attached_def)

lemma filter_not_attached_placeholders [simp]:
  "filter_not_attached (map pending_placeholder os) = []"
  by (induction os) (auto simp: filter_not_attached_def pending_placeholder_def split: prod.splits)

lemma option_decorator_ok:
  assumes "stack = (case decorating_state w (callback f) of None \<Rightarrow> [] | Some s \<Rightarrow> s)"
      and "na = (case not_attached_options w (callback f) of None \<Rightarrow> [] | Some l \<Rightarrow> l)"
      and "stack = [] \<or> length (filter_not_attached (click_params f)) \<le> param_count (last stack)"
  shows "option_decorator fake ds kw f w =
           (Inr (click_option (NotAttachedOption fake ds) f),
            w\<lparr>decorating_state := (decorating_state w)(callback f \<mapsto>
                 stack @ [\<lparr>param_decls = ds, attrs = kw,
                           param_count = length (filter_not_attached (click_params f))\<rparr>]),
              not_attached_options := (not_attached_options w)(callback f \<mapsto>
                 na @ [NotAttachedOption fake ds])\<rparr>)"
  using assms
  by (auto simp: option_decorator_def get_callback_and_params_def dd_get_def check_mixing_decorators_def
       add_not_attached_option_def click_option_def Let_def split: option.splits prod.splits)

lemma make_all_append:
  "make_all (es1 @ es2) =
     (case make_all es1 of Inl e \<Rightarrow> Inl e
      | Inr d1 \<Rightarrow> (case make_all es2 of Inl e \<Rightarrow> Inl e | Inr d2 \<Rightarrow> Inr (d1 @ d2)))"
  by (induction es1) (auto split: sum.splits)

lemma make_all_pending: "make_all (map pending_expr os) = Inr (map pending_decorator os)"
  by (induction os) (auto simp: pending_expr_def pending_decorator_def split: prod.splits)

lemma apply_all_append:
  "apply_all (ds1 @ ds2) f w =
     (case apply_all ds2 f w of (Inl e, w') \<Rightarrow> (Inl e, w') | (Inr f', w') \<Rightarrow> apply_all ds1 f' w')"
  by (induction ds1) (auto split: sum.splits prod.splits)

lemma apply_all_pending:
  assumes "decorating_state w (callback f) = None" and "not_attached_options w (callback f) = None"
  shows "apply_all (map pending_decorator os) f w =
           (Inr (f\<lparr>click_params := click_params f @ rev (map pending_placeholder os)\<rparr>),
            pending_world (callback f) (length (filter_not_attached (click_params f))) os w)"
proof (induction os)
  case Nil
  show ?case by (simp add: pending_world_def)
next
  case (Cons p ps)
  obtain fake ds kw where p: "p = (fake, ds, kw)" by (cases p) auto
  let ?n = "length (filter_not_attached (click_params f))"
  let ?f = "f\<lparr>click_params := click_params f @ rev (map pending_placeholder ps)\<rparr>"
  let ?w = "pending_world (callback f) ?n ps w"
  have stack: "(case decorating_state ?w (callback ?f) of None \<Rightarrow> [] | Some s \<Rightarrow> s) = rev (map (pending_item ?n) ps)"
    using assms by (simp add: pending_world_def)
  have na: "(case not_attached_options ?w (callback ?f) of None \<Rightarrow> [] | Some l \<Rightarrow> l) = rev (map pending_placeholder ps)"
    using assms by (simp add: pending_world_def)
  have cnt: "length (filter_not_attached (click_params ?f)) = ?n"
    by (simp add: rev_map)
  have chk: "rev (map (pending_item ?n) ps) = [] \<or>
             length (filter_not_attached (click_params ?f)) \<le> param_count (last (rev (map (pending_item ?n) ps)))"
  proof (cases ps)
    case Nil then show ?thesis by simp
  next
    case (Cons q qs)
    then show ?thesis unfolding cnt by (simp add: pending_item_def split: prod.splits)
  qed
  have step: "option_decorator fake ds kw ?f ?w =
           (Inr (click_option (NotAttachedOption fake ds) ?f),
            ?w\<lparr>decorating_state := (decorating_state ?w)(callback ?f \<mapsto>
                 rev (map (pending_item ?n) ps) @ [\<lparr>param_decls = ds, attrs = kw, param_count = ?n\<rparr>]),
              not_attached_options := (not_attached_options ?w)(callback ?f \<mapsto>
                 rev (map pending_placeholder ps) @ [NotAttachedOption fake ds])\<rparr>)"
    using option_decorator_ok[OF stack[symmetric] na[symmetric] chk, of fake ds kw] unfolding cnt .
  have f_eq: "click_option (NotAttachedOption fake ds) ?f =
      f\<lparr>click_params := click_params f @ rev (map pending_placeholder (p # ps))\<rparr>"
    by (simp add: click_option_def p pending_placeholder_def)
  have w_eq: "?w\<lparr>decorating_state := (decorating_state ?w)(callback ?f \<mapsto>
                 rev (map (pending_item ?n) ps) @ [\<lparr>param_decls = ds, attrs = kw, param_count = ?n\<rparr>]),
              not_attached_options := (not_attached_options ?w)(callback ?f \<mapsto>
                 rev (map pending_placeholder ps) @ [NotAttachedOption fake ds])\<rparr>
        = pending_world (callback f) ?n (p # ps) w"
    by (cases "ps = []") (simp_all add: pending_world_def p pending_item_def pending_placeholder_def)
  have "apply_all (map pending_decorator (p # ps)) f w = pending_decorator p ?f ?w"
    using Cons.IH by simp
  also have "\<dots> = option_decorator fake ds kw ?f ?w"
    by (simp add: p pending_decorator_def)
  finally show ?case
    unfolding step f_eq w_eq .
qed

section \<open>The group decorator after a run of grouped-option decorators\<close>












section \<open>Options that were never attached\<close>

lemma make_all_click: "make_all (map click_option_at foreign) = Inr (map click_decorator foreign)"
  by (induction foreign) (auto simp: click_decorator_def)

lemma apply_all_click:
  "apply_all (map click_decorator foreign) f w =
     (Inr (f\<lparr>click_params := click_params f @ rev (map ClickOption foreign)\<rparr>), w)"
  by (induction foreign) (auto simp: click_decorator_def click_option_def)

lemma decorate_click_over_pending:
  assumes "decorating_state w (callback f) = None" and "not_attached_options w (callback f) = None"
  shows "decorate (map click_option_at foreign @ map pending_expr os) f w =
           (Inr (f\<lparr>click_params := click_params f @ rev (map pending_placeholder os)
                                      @ rev (map ClickOption foreign)\<rparr>),
            pending_world (callback f) (length (filter_not_attached (click_params f))) os w)"
  by (simp add: decorate_def make_all_append make_all_click make_all_pending apply_all_append
        apply_all_pending[OF assms] apply_all_click)

lemma error_hint_lines_placeholders:
  assumes "\<forall>p\<in>set ps. get_error_hint (pending_decls p) = Inr (hint (pending_decls p))"
  shows "error_hint_lines get_error_hint (map pending_placeholder ps) acc =
           Inr (acc @ concat (map (\<lambda>p. ''  '' @ hint (pending_decls p) @ nl) ps))"
  using assms
  by (induction ps arbitrary: acc) (auto simp: pending_placeholder_def pending_decls_def split: prod.splits)

lemma raise_error_pending:
  assumes na: "not_attached_options w (command_callback ctx) = Some (rev (map pending_placeholder os))"
      and hints: "\<forall>p\<in>set os. get_error_hint (pending_decls p) = Inr (hint (pending_decls p))"
  shows "raise_error get_error_hint w ctx =
           (TypeError (missing_group_message (command_name ctx)
                         (hint_listing (map (\<lambda>p. hint (pending_decls p)) os))), w)"
proof -
  have "concat (map (\<lambda>p. ''  '' @ hint (pending_decls p) @ nl) os) =
        concat (map (\<lambda>h. ''  '' @ h @ nl) (map (\<lambda>p. hint (pending_decls p)) os))"
    by (simp add: comp_def)
  then show ?thesis
    using error_hint_lines_placeholders[OF hints, of "[]"]
    by (simp add: raise_error_def dd_get_def na hint_listing_def)
qed

section \<open>The programs of the tests, run\<close>

lemma visible_grouped_decls_pending [simp]:
  "visible_grouped_decls (map pending_expr os) = map pending_decls os"
  by (induction os) (auto simp: pending_expr_def pending_decls_def split: prod.splits)



lemma run_test_missing_group_decl:
  "decorate test_missing_group_decl cli init_world =
    (Inr \<lparr>callback = Callback 0 (Some ''cli''),
          click_params = [ClickOption [''--hello2''], NotAttachedOption ''--fake-b'' [''--bar''],
                          NotAttachedOption ''--fake-a'' [''--foo''], ClickOption [''--hello1'']]\<rparr>,
     init_world\<lparr>decorating_state := [Callback 0 (Some ''cli'') \<mapsto>
          [\<lparr>param_decls = [''--bar''], attrs = [], param_count = 1\<rparr>,
           \<lparr>param_decls = [''--foo''], attrs = [], param_count = 1\<rparr>]],
        not_attached_options := [Callback 0 (Some ''cli'') \<mapsto>
          [NotAttachedOption ''--fake-b'' [''--bar''], NotAttachedOption ''--fake-a'' [''--foo'']]]\<rparr>)"
  by (simp add: test_missing_group_decl_def decorate_def option_decorator_def
        get_callback_and_params_def dd_get_def check_mixing_decorators_def filter_not_attached_def
        add_not_attached_option_def click_option_def cli_def init_world_def Let_def)

lemma help_test_missing_group_decl:
  "fst (get_help_record click_error_hint (snd (decorate test_missing_group_decl cli init_world)) cli_context) =
     Inl (TypeError (''Missing option group decorator in '' @ sq @ ''cli'' @ sq
        @ '' command for the following grouped options:'' @ nl
        @ ''  '' @ sq @ ''--foo'' @ sq @ nl @ ''  '' @ sq @ ''--bar'' @ sq @ nl))"
  unfolding run_test_missing_group_decl
  by (simp add: get_help_record_def raise_error_def dd_get_def
        init_world_def cli_context_def click_error_hint_def missing_group_message_def nl_def sq_def)

lemma run_test_basic_functionality:
  "\<exists>f'. decorate test_basic_functionality cli init_world =
     (Inr f',
      init_world\<lparr>groups :=
        [\<lparr>group_name = ''Group 2'', group_help = ''Group 2 description'', group_policy = NoConstraint,
          group_options = [\<lparr>opt_name = ''foo2'', opt_decls = [''--foo2''], opt_attrs = []\<rparr>,
                           \<lparr>opt_name = ''bar2'', opt_decls = [''--bar2''], opt_attrs = []\<rparr>]\<rparr>,
         \<lparr>group_name = ''Group 1'', group_help = ''Group 1 description'', group_policy = NoConstraint,
          group_options = [\<lparr>opt_name = ''foo1'', opt_decls = [''--foo1''], opt_attrs = []\<rparr>,
                           \<lparr>opt_name = ''bar1'', opt_decls = [''--bar1''], opt_attrs = []\<rparr>]\<rparr>]\<rparr>)"
  by (simp add: test_basic_functionality_def decorate_def optgroup_call_def group_def option_decorator_def
        get_callback_and_params_def dd_get_def check_mixing_decorators_def filter_not_attached_def
        add_not_attached_option_def click_option_def group_decorator_def cli_def init_world_def
        OptionGroup_def OptionGroup_init_def help_value_def OptionGroup_option_def dest_name_def Let_def)

section \<open>The hooks of the not-attached marker\<close>

text \<open>
  A callback with nothing pending is decorated with a run of grouped-option declarations
  \<open>os\<close> (read top to bottom) and then with any foreign options, and no group decorator
  follows. Then the decoration succeeds, the placeholders stay among the parameters of the
  command, and whenever the framework calls a hook of a placeholder, the one of parameter
  resolution or the one of help rendering, the hook raises the TypeError whose message
  starts "Missing option group decorator in '<command>' command for the following grouped
  options:" and lists the hints of the declarations of \<open>os\<close>, one a line, in the order they
  read. The hooks leave the state as it is, so a later call raises the same error again.
  This is about the hooks only: which of them the framework calls for given command-line
  arguments, and whether its parser accepts the arguments before, is the framework's.
\<close>

lemma not_attached_hooks_raise:
  assumes fresh: "decorating_state w (callback f) = None" "not_attached_options w (callback f) = None"
      and ne: "os \<noteq> []"
      and hints: "\<forall>p\<in>set os. get_error_hint (pending_decls p) = Inr (hint (pending_decls p))"
      and ctx: "command_callback ctx = callback f"
  shows "\<exists>f' w'. decorate (map click_option_at foreign @ map pending_expr os) f w = (Inr f', w')
           \<and> set (map pending_placeholder os) \<subseteq> set (click_params f')
           \<and> handle_parse_result get_error_hint w' ctx opts args =
               (Inl (TypeError (''Missing option group decorator in '' @ sq @ command_name ctx @ sq
                  @ '' command for the following grouped options:'' @ nl
                  @ hint_listing (map (\<lambda>p. hint (pending_decls p)) os) @ nl)), w')
           \<and> get_help_record get_error_hint w' ctx =
               (Inl (TypeError (''Missing option group decorator in '' @ sq @ command_name ctx @ sq
                  @ '' command for the following grouped options:'' @ nl
                  @ hint_listing (map (\<lambda>p. hint (pending_decls p)) os) @ nl)), w')"
proof -
  let ?w = "pending_world (callback f) (length (filter_not_attached (click_params f))) os w"
  let ?f = "f\<lparr>click_params := click_params f @ rev (map pending_placeholder os) @ rev (map ClickOption foreign)\<rparr>"
  have run: "decorate (map click_option_at foreign @ map pending_expr os) f w = (Inr ?f, ?w)"
    by (rule decorate_click_over_pending[OF fresh])
  have na: "not_attached_options ?w (command_callback ctx) = Some (rev (map pending_placeholder os))"
    using ne by (simp add: pending_world_def ctx)
  have err: "raise_error get_error_hint ?w ctx =
           (TypeError (missing_group_message (command_name ctx)
                         (hint_listing (map (\<lambda>p. hint (pending_decls p)) os))), ?w)"
    by (rule raise_error_pending[OF na hints])
  have "set (map pending_placeholder os) \<subseteq> set (click_params ?f)" by auto
  then show ?thesis
    using run err
    by (simp add: handle_parse_result_def get_help_record_def missing_group_message_def)
qed

lemma not_attached_hooks_raise_example:
  "decorating_state init_world (callback (click_option (ClickOption [''--hello2'']) cli)) = None
   \<and> not_attached_options init_world (callback (click_option (ClickOption [''--hello2'']) cli)) = None
   \<and> command_callback cli_context = callback (click_option (ClickOption [''--hello2'']) cli)
   \<and> (\<exists>f' w'. decorate test_missing_group_decl cli init_world = (Inr f', w')
         \<and> {NotAttachedOption ''--fake-a'' [''--foo''], NotAttachedOption ''--fake-b'' [''--bar'']}
               \<subseteq> set (click_params f')
         \<and> handle_parse_result click_error_hint w' cli_context [''hello1'' \<mapsto> PStr ''hello1''] [] =
             (Inl (TypeError (''Missing option group decorator in '' @ sq @ ''cli'' @ sq
                @ '' command for the following grouped options:'' @ nl
                @ ''  '' @ sq @ ''--foo'' @ sq @ nl @ ''  '' @ sq @ ''--bar'' @ sq @ nl)), w')
         \<and> get_help_record click_error_hint w' cli_context =
             (Inl (TypeError (''Missing option group decorator in '' @ sq @ ''cli'' @ sq
                @ '' command for the following grouped options:'' @ nl
                @ ''  '' @ sq @ ''--foo'' @ sq @ nl @ ''  '' @ sq @ ''--bar'' @ sq @ nl)), w'))"
proof -
  let ?f = "click_option (ClickOption [''--hello2'']) cli"
  let ?os = "[(''--fake-a'', [''--foo''], []), (''--fake-b'', [''--bar''], [])] :: pending list"
  let ?hint = "\<lambda>ds. str_join '' / '' (map (\<lambda>d. sq @ d @ sq) ds)"
  have h1: "decorating_state init_world (callback ?f) = None"
    by (simp add: init_world_def)
  have h2: "not_attached_options init_world (callback ?f) = None"
    by (simp add: init_world_def)
  have h3: "?os \<noteq> []" by simp
  have h4: "\<forall>p\<in>set ?os. click_error_hint (pending_decls p) = Inr (?hint (pending_decls p))"
    by (simp add: click_error_hint_def)
  have h5: "command_callback cli_context = callback ?f"
    by (simp add: cli_context_def click_option_def cli_def)
  have prog: "decorate test_missing_group_decl cli init_world =
      decorate (map click_option_at [[''--hello1'']] @ map pending_expr ?os) ?f init_world"
    by (simp add: test_missing_group_decl_def decorate_def pending_expr_def)
  show ?thesis
    using h1 h2 h5
      not_attached_hooks_raise[OF h1 h2 h3 h4 h5, of "[[''--hello1'']]" "[''hello1'' \<mapsto> PStr ''hello1'']" "[]"]
    unfolding prog
    by (simp add: pending_placeholder_def pending_decls_def hint_listing_def cli_context_def sq_def nl_def)
qed

section \<open>Claims about the registration engine\<close>

text \<open>
  C2. An option registered as pending and never attached is to raise the "Missing option
  group decorator" error when help is requested and whenever the command is invoked, with
  any arguments; \<^verbatim>\<open>test_missing_group_decl_first_api\<close> asserts it for the arguments
  \<^verbatim>\<open>--foo foo\<close>. On the program of that test \<^verbatim>\<open>_add_not_attached_option\<close> registers the
  placeholders under the fake names: the option strings the command knows are those of
  the two foreign options and the two fake names, and \<^verbatim>\<open>--foo\<close>, the declaration of the
  pending option, is not among them. The command line \<^verbatim>\<open>--foo foo\<close> so names an option the
  command does not have, and the framework's parser turns it down before any hook of a
  parameter is called.
\<close>

theorem orphaned_option_registered_under_fake_name:
  "fst (decorate test_missing_group_decl cli init_world) =
     Inr \<lparr>callback = Callback 0 (Some ''cli''),
          click_params = [ClickOption [''--hello2''], NotAttachedOption ''--fake-b'' [''--bar''],
                          NotAttachedOption ''--fake-a'' [''--foo''], ClickOption [''--hello1'']]\<rparr>
   \<and> concat (map param_opts (click_params (projr (fst (decorate test_missing_group_decl cli init_world)))))
       = [''--hello2'', ''--fake-b'', ''--fake-a'', ''--hello1'']
   \<and> ''--foo'' \<notin> set (concat (map param_opts
         (click_params (projr (fst (decorate test_missing_group_decl cli init_world))))))"
  unfolding run_test_missing_group_decl by simp



section \<open>The mis-ordering check\<close>

lemma option_decorator_nonempty:
  assumes "decorating_state w (callback f) = Some stack" and "stack \<noteq> []"
  shows "(length (filter_not_attached (click_params f)) > param_count (last stack) \<longrightarrow>
            option_decorator fake ds kw f w =
              (Inl (raise_mixing_decorators_error (last (filter_not_attached (click_params f))) (callback f)), w))
       \<and> (\<not> length (filter_not_attached (click_params f)) > param_count (last stack) \<longrightarrow>
            (\<exists>w'. option_decorator fake ds kw f w = (Inr (click_option (NotAttachedOption fake ds) f), w')
               \<and> decorating_state w' (callback f) =
                  Some (stack @ [\<lparr>param_decls = ds, attrs = kw,
                                  param_count = length (filter_not_attached (click_params f))\<rparr>])))"
  using assms
  by (auto simp: option_decorator_def get_callback_and_params_def dd_get_def check_mixing_decorators_def
       add_not_attached_option_def click_option_def Let_def split: option.splits prod.splits)

lemma group_decorator_mixing:
  assumes "decorating_state w (callback f) = Some stack" and "stack \<noteq> []"
      and "not_attached_options w (callback f) = Some na"
      and "remove_params na (click_params f) = Inr params'"
      and "length (filter_not_attached params') > param_count (last stack)"
  shows "fst (group_decorator name c hlp kw f w) =
           Inl (raise_mixing_decorators_error (last (filter_not_attached params')) (callback f))"
  using assms
  by (simp add: group_decorator_def get_callback_and_params_def check_mixing_decorators_def Let_def)

lemma run_test_mix_decl_below:
  "decorate test_mix_decl_below cli init_world =
     (Inr \<lparr>callback = Callback 0 (Some ''cli''),
           click_params = [NotAttachedOption ''--fake-b'' [''--bar''], ClickOption [''--hello'']]\<rparr>,
      init_world\<lparr>decorating_state := [Callback 0 (Some ''cli'') \<mapsto>
                     [\<lparr>param_decls = [''--bar''], attrs = [], param_count = 0\<rparr>]],
                 not_attached_options := [Callback 0 (Some ''cli'') \<mapsto>
                     [NotAttachedOption ''--fake-b'' [''--bar'']]]\<rparr>)"
  by (simp add: test_mix_decl_below_def decorate_def option_decorator_def
        get_callback_and_params_def dd_get_def check_mixing_decorators_def filter_not_attached_def
        add_not_attached_option_def click_option_def cli_def init_world_def Let_def)

lemma run_test_pending_only:
  "decorate test_pending_only cli init_world =
     (Inr \<lparr>callback = Callback 0 (Some ''cli''),
           click_params = [NotAttachedOption ''--fake-b'' [''--bar'']]\<rparr>,
      init_world\<lparr>decorating_state := [Callback 0 (Some ''cli'') \<mapsto>
                     [\<lparr>param_decls = [''--bar''], attrs = [], param_count = 0\<rparr>]],
                 not_attached_options := [Callback 0 (Some ''cli'') \<mapsto>
                     [NotAttachedOption ''--fake-b'' [''--bar'']]]\<rparr>)"
  by (simp add: test_pending_only_def decorate_def option_decorator_def
        get_callback_and_params_def dd_get_def check_mixing_decorators_def filter_not_attached_def
        add_not_attached_option_def click_option_def cli_def init_world_def Let_def)

lemma run_test_mix_decl_top:
  "decorate test_mix_decl_top cli init_world =
     (Inr \<lparr>callback = Callback 0 (Some ''cli''),
           click_params = [NotAttachedOption ''--fake-b'' [''--bar''],
                           NotAttachedOption ''--fake-a'' [''--foo''], ClickOption [''--hello'']]\<rparr>,
      init_world\<lparr>decorating_state := [Callback 0 (Some ''cli'') \<mapsto>
                     [\<lparr>param_decls = [''--bar''], attrs = [], param_count = 0\<rparr>,
                      \<lparr>param_decls = [''--foo''], attrs = [], param_count = 0\<rparr>]],
                 not_attached_options := [Callback 0 (Some ''cli'') \<mapsto>
                     [NotAttachedOption ''--fake-b'' [''--bar''], NotAttachedOption ''--fake-a'' [''--foo'']]]\<rparr>)"
  by (simp add: test_mix_decl_top_def decorate_def option_decorator_def
        get_callback_and_params_def dd_get_def check_mixing_decorators_def filter_not_attached_def
        add_not_attached_option_def click_option_def cli_def init_world_def Let_def)


text \<open>
  C3. For a callback whose pending stack is not empty: when a grouped-option decorator
  fires and the count of the recorded parameters that are not placeholders exceeds the
  count of the last pending entry, the TypeError "Check decorator position for [<decls>]
  option" is raised, naming the option strings of the last such parameter and suffixed
  "in '<command>'" when the name of the callback is known; otherwise the decorator returns
  and the new entry, with the current filtered count, is at the end of the pending stack.
  The re-check of the group decorator, on the parameters left once the placeholders are
  removed, raises the same error under the same condition.
\<close>

theorem mixing_decorators_check:
  assumes "decorating_state w (callback f) = Some stack" and "stack \<noteq> []"
  shows "(param_count (last stack) < length (filter_not_attached (click_params f)) \<longrightarrow>
            fst (option_decorator fake ds kw f w) =
              Inl (TypeError (mixing_message (last (filter_not_attached (click_params f))) (callback f))))
       \<and> (\<not> param_count (last stack) < length (filter_not_attached (click_params f)) \<longrightarrow>
            (\<exists>f' w'. option_decorator fake ds kw f w = (Inr f', w')
               \<and> decorating_state w' (callback f) =
                  Some (stack @ [\<lparr>param_decls = ds, attrs = kw,
                                  param_count = length (filter_not_attached (click_params f))\<rparr>])))
       \<and> (\<forall>na params'. not_attached_options w (callback f) = Some na \<longrightarrow>
            remove_params na (click_params f) = Inr params' \<longrightarrow>
            param_count (last stack) < length (filter_not_attached params') \<longrightarrow>
            fst (group_decorator name c hlp kw f w) =
              Inl (TypeError (mixing_message (last (filter_not_attached params')) (callback f))))"
proof (intro conjI allI impI)
  assume "param_count (last stack) < length (filter_not_attached (click_params f))"
  then show "fst (option_decorator fake ds kw f w) =
      Inl (TypeError (mixing_message (last (filter_not_attached (click_params f))) (callback f)))"
    using option_decorator_nonempty[OF assms, of fake ds kw]
    by (simp add: raise_mixing_decorators_error_def mixing_message_def)
next
  assume "\<not> param_count (last stack) < length (filter_not_attached (click_params f))"
  then show "\<exists>f' w'. option_decorator fake ds kw f w = (Inr f', w')
               \<and> decorating_state w' (callback f) =
                  Some (stack @ [\<lparr>param_decls = ds, attrs = kw,
                                  param_count = length (filter_not_attached (click_params f))\<rparr>])"
    using option_decorator_nonempty[OF assms, of fake ds kw] by blast
next
  fix na params'
  assume "not_attached_options w (callback f) = Some na"
    and "remove_params na (click_params f) = Inr params'"
    and "param_count (last stack) < length (filter_not_attached params')"
  then show "fst (group_decorator name c hlp kw f w) =
              Inl (TypeError (mixing_message (last (filter_not_attached params')) (callback f)))"
    using group_decorator_mixing[OF assms, of na params' name c hlp kw]
    by (simp add: raise_mixing_decorators_error_def mixing_message_def)
qed

theorem mixing_decorators_check_witness:
  "fst (option_decorator ''--fake-a'' [''--foo''] []
          (projr (fst (decorate test_mix_decl_below cli init_world)))
          (snd (decorate test_mix_decl_below cli init_world)))
     = Inl (TypeError (''Check decorator position for ['' @ sq @ ''--hello'' @ sq @ ''] option in ''
                         @ sq @ ''cli'' @ sq))
   \<and> (\<exists>f' w'. option_decorator ''--fake-a'' [''--foo''] []
          (projr (fst (decorate test_pending_only cli init_world)))
          (snd (decorate test_pending_only cli init_world)) = (Inr f', w')
        \<and> decorating_state w' (callback cli) =
            Some [\<lparr>param_decls = [''--bar''], attrs = [], param_count = 0\<rparr>,
                  \<lparr>param_decls = [''--foo''], attrs = [], param_count = 0\<rparr>])
   \<and> fst (group_decorator (Some ''Group 1'') OptionGroup (Some ''Group 1 description'') []
          (projr (fst (decorate test_mix_decl_top cli init_world)))
          (snd (decorate test_mix_decl_top cli init_world)))
     = Inl (TypeError (''Check decorator position for ['' @ sq @ ''--hello'' @ sq @ ''] option in ''
                         @ sq @ ''cli'' @ sq))"
proof -
  let ?bar = "\<lparr>param_decls = [''--bar''], attrs = [], param_count = 0\<rparr>"
  let ?foo = "\<lparr>param_decls = [''--foo''], attrs = [], param_count = 0\<rparr>"
  let ?f1 = "projr (fst (decorate test_mix_decl_below cli init_world))"
  let ?w1 = "snd (decorate test_mix_decl_below cli init_world)"
  let ?f2 = "projr (fst (decorate test_pending_only cli init_world))"
  let ?w2 = "snd (decorate test_pending_only cli init_world)"
  let ?f3 = "projr (fst (decorate test_mix_decl_top cli init_world))"
  let ?w3 = "snd (decorate test_mix_decl_top cli init_world)"
  have a1: "decorating_state ?w1 (callback ?f1) = Some [?bar]"
    unfolding run_test_mix_decl_below by (simp add: init_world_def)
  have a2: "decorating_state ?w2 (callback ?f2) = Some [?bar]"
    unfolding run_test_pending_only by (simp add: init_world_def)
  have a3: "decorating_state ?w3 (callback ?f3) = Some [?bar, ?foo]"
    unfolding run_test_mix_decl_top by (simp add: init_world_def)
  have ne1: "[?bar] \<noteq> []" and ne3: "[?bar, ?foo] \<noteq> []" by simp_all
  have c1: "param_count (last [?bar]) < length (filter_not_attached (click_params ?f1))"
    unfolding run_test_mix_decl_below by (simp add: filter_not_attached_def)
  have c2: "\<not> param_count (last [?bar]) < length (filter_not_attached (click_params ?f2))"
    unfolding run_test_pending_only by (simp add: filter_not_attached_def)
  have n3: "not_attached_options ?w3 (callback ?f3) =
              Some [NotAttachedOption ''--fake-b'' [''--bar''], NotAttachedOption ''--fake-a'' [''--foo'']]"
    unfolding run_test_mix_decl_top by (simp add: init_world_def)
  have r3: "remove_params [NotAttachedOption ''--fake-b'' [''--bar''], NotAttachedOption ''--fake-a'' [''--foo'']]
              (click_params ?f3) = Inr [ClickOption [''--hello'']]"
    unfolding run_test_mix_decl_top by simp
  have c3: "param_count (last [?bar, ?foo]) < length (filter_not_attached [ClickOption [''--hello'']])"
    by (simp add: filter_not_attached_def)
  have m1: "mixing_message (last (filter_not_attached (click_params ?f1))) (callback ?f1) =
      ''Check decorator position for ['' @ sq @ ''--hello'' @ sq @ ''] option in '' @ sq @ ''cli'' @ sq"
    unfolding run_test_mix_decl_below
    by (simp add: mixing_message_def filter_not_attached_def py_repr_list_def)
  have m3: "mixing_message (last (filter_not_attached [ClickOption [''--hello'']])) (callback ?f3) =
      ''Check decorator position for ['' @ sq @ ''--hello'' @ sq @ ''] option in '' @ sq @ ''cli'' @ sq"
    unfolding run_test_mix_decl_top
    by (simp add: mixing_message_def filter_not_attached_def py_repr_list_def)
  have cb2: "callback ?f2 = callback cli"
    unfolding run_test_pending_only by (simp add: cli_def)
  have len2: "length (filter_not_attached (click_params ?f2)) = 0"
    unfolding run_test_pending_only by (simp add: filter_not_attached_def)
  from mixing_decorators_check[OF a1 ne1, of "''--fake-a''" "[''--foo'']" "[]"] c1 m1
  have g1: "fst (option_decorator ''--fake-a'' [''--foo''] [] ?f1 ?w1) =
      Inl (TypeError (''Check decorator position for ['' @ sq @ ''--hello'' @ sq @ ''] option in '' @ sq @ ''cli'' @ sq))"
    by simp
  from mixing_decorators_check[OF a2 ne1, of "''--fake-a''" "[''--foo'']" "[]"] c2
  have g2: "\<exists>f' w'. option_decorator ''--fake-a'' [''--foo''] [] ?f2 ?w2 = (Inr f', w')
        \<and> decorating_state w' (callback cli) = Some [?bar, ?foo]"
    unfolding cb2 len2 by simp
  from mixing_decorators_check[where name = "Some ''Group 1''" and c = OptionGroup
      and hlp = "Some ''Group 1 description''" and kw = "[]", OF a3 ne3]
    n3 r3 c3 m3
  have g3: "fst (group_decorator (Some ''Group 1'') OptionGroup (Some ''Group 1 description'') [] ?f3 ?w3) =
      Inl (TypeError (''Check decorator position for ['' @ sq @ ''--hello'' @ sq @ ''] option in '' @ sq @ ''cli'' @ sq))"
    by simp
  from g1 g2 g3 show ?thesis by blast
qed

text \<open>
  C10. The mis-ordering check passes on an empty pending stack, whatever the parameters:
  the first grouped-option decorator applied to a callback (nothing pending for it)
  returns, with the placeholder registered and its entry the only one of the stack, however
  many foreign options the function carries.
\<close>

theorem first_grouped_option_never_mixing_error:
  assumes "decorating_state w (callback f) = None \<or> decorating_state w (callback f) = Some []"
  shows "check_mixing_decorators (callback f) [] (filter_not_attached (click_params f)) = Inr ()
         \<and> (\<exists>w'. option_decorator fake ds kw f w = (Inr (click_option (NotAttachedOption fake ds) f), w')
               \<and> decorating_state w' (callback f) =
                   Some [\<lparr>param_decls = ds, attrs = kw,
                          param_count = length (filter_not_attached (click_params f))\<rparr>])"
  using assms
  by (auto simp: option_decorator_def get_callback_and_params_def dd_get_def check_mixing_decorators_def
       add_not_attached_option_def click_option_def Let_def split: option.splits prod.splits)

theorem first_grouped_option_never_mixing_error_witness:
  "decorating_state init_world (callback three_foreign) = None
   \<and> length (filter_not_attached (click_params three_foreign)) = 3
   \<and> (\<exists>w'. option_decorator ''--fake-a'' [''--foo''] [] three_foreign init_world =
               (Inr (click_option (NotAttachedOption ''--fake-a'' [''--foo'']) three_foreign), w')
         \<and> decorating_state w' (callback three_foreign) =
               Some [\<lparr>param_decls = [''--foo''], attrs = [], param_count = 3\<rparr>])"
proof -
  have h: "decorating_state init_world (callback three_foreign) = None"
    by (simp add: init_world_def)
  have n: "length (filter_not_attached (click_params three_foreign)) = 3"
    by (simp add: three_foreign_def click_option_def cli_def filter_not_attached_def)
  from first_grouped_option_never_mixing_error[OF disjI1[OF h], of "''--fake-a''" "[''--foo'']" "[]"]
  show ?thesis using h n by simp
qed

section \<open>The group decorator: nothing pending, classes, the call form\<close>

lemma group_decorator_nothing_pending:
  "decorating_state w (callback f) = None \<Longrightarrow>
     group_decorator name c hlp kw f w =
       (Inr f, w\<lparr>emitted := emitted w @ [(UserWarning, empty_group_warning name)]\<rparr>)"
  by (simp add: group_decorator_def get_callback_and_params_def)



lemma run_test_unexpected_arguments:
  "fst (decorate test_unexpected_arguments cli init_world) =
     Inl (TypeError (sq @ ''OptionGroup'' @ sq @ '' constructor got an unexpected keyword argument ''
                       @ sq @ ''oops'' @ sq))"
  by (simp add: test_unexpected_arguments_def decorate_def optgroup_call_def group_def option_decorator_def
        get_callback_and_params_def dd_get_def check_mixing_decorators_def filter_not_attached_def
        add_not_attached_option_def click_option_def group_decorator_def cli_def init_world_def
        OptionGroup_def OptionGroup_init_def help_value_def str_replace_def sq_def Let_def)

lemma run_test_incorrect_cls:
  "decorate test_incorrect_cls cli init_world =
     (Inl (TypeError (sq @ ''cls'' @ sq @ '' must be a subclass of '' @ sq @ ''OptionGroup'' @ sq @ '' class.'')),
      init_world)"
  by (simp add: test_incorrect_cls_def decorate_def optgroup_call_def group_def object_cls_def)


text \<open>
  C1. The group decorator applied to a callback with nothing pending returns the function
  as it is and constructs no group (\<open>group_decorator_nothing_pending\<close>); the claim and the
  test \<^verbatim>\<open>test_missing_grouped_options_decl_first_api\<close> have it emit a RuntimeWarning.
  On the program of that test the function comes back with its two foreign options and
  no group, and the one warning emitted, with the message of the claim, is a UserWarning:
  no RuntimeWarning is emitted.
\<close>

theorem empty_group_warning_category:
  "decorate test_missing_grouped_options cli init_world =
     (Inr (cli\<lparr>click_params := [ClickOption [''--hello2''], ClickOption [''--hello1'']]\<rparr>),
      init_world\<lparr>emitted := [(UserWarning,
         ''The empty option group '' @ dq @ ''Group 1'' @ dq @ '' was found. The group will not be added.'')]\<rparr>)
   \<and> RuntimeWarning \<notin> set (map fst (emitted (snd (decorate test_missing_grouped_options cli init_world))))"
proof -
  have run: "decorate test_missing_grouped_options cli init_world =
     (Inr (cli\<lparr>click_params := [ClickOption [''--hello2''], ClickOption [''--hello1'']]\<rparr>),
      init_world\<lparr>emitted := [(UserWarning,
         ''The empty option group '' @ dq @ ''Group 1'' @ dq @ '' was found. The group will not be added.'')]\<rparr>)"
    by (simp add: test_missing_grouped_options_def decorate_def optgroup_call_def group_def
          group_decorator_def get_callback_and_params_def click_option_def cli_def init_world_def
          empty_group_warning_def)
  show ?thesis unfolding run by simp
qed




text \<open>
  C9. Calling the manager object is calling its \<^verbatim>\<open>group\<close> method: the two give the same
  error or the same decorator, and a decorator list reads the same with either form, for
  every function and state.
\<close>

theorem call_is_group:
  "optgroup_call name hlp cls kw = group name cls hlp kw
   \<and> (\<forall>es1 es2 f w. decorate (es1 @ optgroup_call_at name hlp cls kw # es2) f w
                      = decorate (es1 @ optgroup_group_at name cls hlp kw # es2) f w)"
proof -
  have "make_all (es1 @ optgroup_call_at name hlp cls kw # es2)
          = make_all (es1 @ optgroup_group_at name cls hlp kw # es2)" for es1 es2
    by (induction es1) (auto simp: optgroup_call_def split: sum.splits)
  then show ?thesis
    by (simp add: optgroup_call_def decorate_def)
qed

theorem call_is_group_witness:
  "optgroup_call (Some ''Group 1'') (Some ''Group 1 description'') None []
     = group (Some ''Group 1'') None (Some ''Group 1 description'') []
   \<and> decorate test_missing_grouped_options cli init_world
     = decorate [click_option_at [''--hello1''],
                 optgroup_group_at (Some ''Group 1'') None (Some ''Group 1 description'') [],
                 click_option_at [''--hello2'']] cli init_world"
  using call_is_group[of "Some ''Group 1''" "Some ''Group 1 description''" None "[]"]
    spec[OF spec[OF conjunct2[OF call_is_group[of "Some ''Group 1''" "Some ''Group 1 description''" None "[]"]]],
         of "[click_option_at [''--hello1'']]" "[click_option_at [''--hello2'']]"]
  by (simp add: test_missing_grouped_options_def)

section \<open>Claims about the constraint policies\<close>

lemma present_count_filter:
  "present_count g vals = length (filter (present vals) (group_options g))"
  by (simp add: present_count_def length_filter_conv_card)

lemmas test_group_simps = test_group_def member_option_def present_def options_hint_def option_hint_def
  display_name_def default_name_def

text \<open>
  C4. Under the require-all policy the validation of a group passes exactly when every
  member option has a present value, and the command then runs to status 0. When it
  fails, the usage error reads "Missing required options from", names the group and lists
  the members without a present value, these only and in the order of the group, and the
  framework ends with status 2.
\<close>

theorem require_all_validation:
  assumes "group_policy g = RequireAll"
  shows "(validate g vals = Inr ()) = (\<forall>opt\<in>set (group_options g). present vals opt)
       \<and> (validate g vals = Inr () \<longrightarrow> run_validated g vals = Exit 0)
       \<and> (validate g vals \<noteq> Inr () \<longrightarrow>
            validate g vals =
              Inl (UsageError (''Missing required options from '' @ display_name g @ '' option group:''
                     @ options_hint (filter (\<lambda>opt. \<not> present vals opt) (group_options g))))
            \<and> run_validated g vals = Exit 2)"
  using assms
  by (auto simp: validate_def validate_require_all_def run_validated_def Let_def filter_empty_conv)

theorem require_all_validation_witness:
  "group_policy (test_group RequireAll [''foo'', ''bar'']) = RequireAll
   \<and> validate (test_group RequireAll [''foo'', ''bar'']) [''foo'' \<mapsto> PStr ''foo''] =
       Inl (UsageError (''Missing required options from (foo|bar) option group:''
                          @ nl @ ''  '' @ dq @ ''--bar'' @ dq))
   \<and> run_validated (test_group RequireAll [''foo'', ''bar'']) [''foo'' \<mapsto> PStr ''foo''] = Exit 2
   \<and> validate (test_group RequireAll [''foo'', ''bar''])
         [''foo'' \<mapsto> PStr ''foo'', ''bar'' \<mapsto> PStr ''bar''] = Inr ()
   \<and> run_validated (test_group RequireAll [''foo'', ''bar''])
         [''foo'' \<mapsto> PStr ''foo'', ''bar'' \<mapsto> PStr ''bar''] = Exit 0"
proof -
  let ?g = "test_group RequireAll [''foo'', ''bar'']"
  let ?v1 = "[''foo'' \<mapsto> PStr ''foo'']"
  let ?v2 = "[''foo'' \<mapsto> PStr ''foo'', ''bar'' \<mapsto> PStr ''bar'']"
  have p: "group_policy ?g = RequireAll" by (simp add: test_group_def)
  have absent: "\<not> (\<forall>opt\<in>set (group_options ?g). present ?v1 opt)"
    by (simp add: test_group_simps)
  have all: "\<forall>opt\<in>set (group_options ?g). present ?v2 opt"
    by (simp add: test_group_simps)
  have missing: "options_hint (filter (\<lambda>opt. \<not> present ?v1 opt) (group_options ?g)) =
                   nl @ ''  '' @ dq @ ''--bar'' @ dq"
    by (simp add: test_group_simps)
  have name: "display_name ?g = ''(foo|bar)''"
    by (simp add: test_group_simps)
  note t1 = require_all_validation[OF p, of ?v1] and t2 = require_all_validation[OF p, of ?v2]
  from t1 absent have "validate ?g ?v1 \<noteq> Inr ()" by blast
  with t1 have f: "validate ?g ?v1 =
      Inl (UsageError (''Missing required options from '' @ display_name ?g @ '' option group:''
             @ options_hint (filter (\<lambda>opt. \<not> present ?v1 opt) (group_options ?g))))"
    and e: "run_validated ?g ?v1 = Exit 2" by blast+
  from t2 all have ok: "validate ?g ?v2 = Inr ()" and e0: "run_validated ?g ?v2 = Exit 0" by blast+
  from f have f': "validate ?g ?v1 =
       Inl (UsageError (''Missing required options from (foo|bar) option group:''
                          @ nl @ ''  '' @ dq @ ''--bar'' @ dq))"
    unfolding missing name by simp
  from p f' e ok e0 show ?thesis by blast
qed

text \<open>
  C5. Under the mutually-exclusive policy the validation passes exactly when at most one
  member option has a present value (none is allowed). When it fails, the usage error
  reads "The given mutually exclusive options cannot be used at the same time" and lists
  the members with a present value, these only and in the order of the group; the
  framework ends with status 2.
\<close>

theorem mutually_exclusive_validation:
  assumes "group_policy g = MutuallyExclusive"
  shows "(validate g vals = Inr ()) = (present_count g vals \<le> 1)
       \<and> (validate g vals \<noteq> Inr () \<longrightarrow>
            validate g vals =
              Inl (UsageError (''The given mutually exclusive options cannot be used at the same time:''
                     @ options_hint (filter (present vals) (group_options g))))
            \<and> run_validated g vals = Exit 2)"
  using assms
  by (auto simp: validate_def validate_mutually_exclusive_def run_validated_def Let_def
        present_count_filter)

theorem mutually_exclusive_validation_witness:
  "group_policy (test_group MutuallyExclusive [''foo'', ''bar'', ''spam'']) = MutuallyExclusive
   \<and> validate (test_group MutuallyExclusive [''foo'', ''bar'', ''spam''])
         [''foo'' \<mapsto> PStr ''foo'', ''spam'' \<mapsto> PStr ''spam''] =
       Inl (UsageError (''The given mutually exclusive options cannot be used at the same time:''
                          @ nl @ ''  '' @ dq @ ''--foo'' @ dq @ nl @ ''  '' @ dq @ ''--spam'' @ dq))
   \<and> run_validated (test_group MutuallyExclusive [''foo'', ''bar'', ''spam''])
         [''foo'' \<mapsto> PStr ''foo'', ''spam'' \<mapsto> PStr ''spam''] = Exit 2
   \<and> validate (test_group MutuallyExclusive [''foo'', ''bar'', ''spam'']) Map.empty = Inr ()
   \<and> validate (test_group MutuallyExclusive [''foo'', ''bar'', ''spam''])
         [''bar'' \<mapsto> PStr ''bar''] = Inr ()"
proof -
  let ?g = "test_group MutuallyExclusive [''foo'', ''bar'', ''spam'']"
  let ?v2 = "[''foo'' \<mapsto> PStr ''foo'', ''spam'' \<mapsto> PStr ''spam'']"
  let ?v0 = "Map.empty :: resolved_values"
  let ?v1 = "[''bar'' \<mapsto> PStr ''bar'']"
  have p: "group_policy ?g = MutuallyExclusive" by (simp add: test_group_def)
  have n2: "present_count ?g ?v2 = 2" and n0: "present_count ?g ?v0 = 0" and n1: "present_count ?g ?v1 = 1"
    by (simp_all add: present_count_filter test_group_simps)
  have given: "options_hint (filter (present ?v2) (group_options ?g)) =
                 nl @ ''  '' @ dq @ ''--foo'' @ dq @ nl @ ''  '' @ dq @ ''--spam'' @ dq"
    by (simp add: test_group_simps)
  note t2 = mutually_exclusive_validation[OF p, of ?v2]
    and t0 = mutually_exclusive_validation[OF p, of ?v0]
    and t1 = mutually_exclusive_validation[OF p, of ?v1]
  from t2 n2 have "validate ?g ?v2 \<noteq> Inr ()" by simp
  with t2 have f: "validate ?g ?v2 =
      Inl (UsageError (''The given mutually exclusive options cannot be used at the same time:''
             @ options_hint (filter (present ?v2) (group_options ?g))))"
    and e: "run_validated ?g ?v2 = Exit 2" by blast+
  from t0 n0 have ok0: "validate ?g ?v0 = Inr ()" by simp
  from t1 n1 have ok1: "validate ?g ?v1 = Inr ()" by simp
  from f have f': "validate ?g ?v2 =
       Inl (UsageError (''The given mutually exclusive options cannot be used at the same time:''
                          @ nl @ ''  '' @ dq @ ''--foo'' @ dq @ nl @ ''  '' @ dq @ ''--spam'' @ dq))"
    unfolding given by simp
  from p f' e ok0 ok1 show ?thesis by blast
qed

text \<open>
  C6. Under the composed policy the validation passes exactly when one member option has
  a present value. With none present the usage error reads "Missing one of the required
  mutually exclusive options" and lists all members; with two or more present it is the
  error of the mutually-exclusive policy, listing the present ones.
\<close>

theorem require_mutually_exclusive_validation:
  assumes "group_policy g = RequireMutuallyExclusive"
  shows "(validate g vals = Inr ()) = (present_count g vals = 1)
       \<and> (present_count g vals = 0 \<longrightarrow>
            validate g vals =
              Inl (UsageError (''Missing one of the required mutually exclusive options:''
                     @ options_hint (group_options g))))
       \<and> (2 \<le> present_count g vals \<longrightarrow>
            validate g vals =
              Inl (UsageError (''The given mutually exclusive options cannot be used at the same time:''
                     @ options_hint (filter (present vals) (group_options g)))))"
proof -
  let ?n = "length (filter (present vals) (group_options g))"
  have v: "validate g vals = validate_require_mutually_exclusive g vals"
    using assms by (simp add: validate_def)
  show ?thesis
    unfolding v present_count_filter validate_require_mutually_exclusive_def
      validate_mutually_exclusive_def Let_def
    by (cases "filter (present vals) (group_options g)") auto
qed


theorem require_mutually_exclusive_validation_witness:
  "group_policy (test_group RequireMutuallyExclusive [''foo'', ''bar'', ''spam'']) = RequireMutuallyExclusive
   \<and> validate (test_group RequireMutuallyExclusive [''foo'', ''bar'', ''spam'']) Map.empty =
       Inl (UsageError (''Missing one of the required mutually exclusive options:''
              @ nl @ ''  '' @ dq @ ''--foo'' @ dq @ nl @ ''  '' @ dq @ ''--bar'' @ dq
              @ nl @ ''  '' @ dq @ ''--spam'' @ dq))
   \<and> validate (test_group RequireMutuallyExclusive [''foo'', ''bar'', ''spam''])
         [''foo'' \<mapsto> PStr ''foo'', ''bar'' \<mapsto> PStr ''bar''] =
       Inl (UsageError (''The given mutually exclusive options cannot be used at the same time:''
              @ nl @ ''  '' @ dq @ ''--foo'' @ dq @ nl @ ''  '' @ dq @ ''--bar'' @ dq))
   \<and> validate (test_group RequireMutuallyExclusive [''foo'', ''bar'', ''spam''])
         [''spam'' \<mapsto> PStr ''spam''] = Inr ()"
proof -
  let ?g = "test_group RequireMutuallyExclusive [''foo'', ''bar'', ''spam'']"
  let ?v0 = "Map.empty :: resolved_values"
  let ?v2 = "[''foo'' \<mapsto> PStr ''foo'', ''bar'' \<mapsto> PStr ''bar'']"
  let ?v1 = "[''spam'' \<mapsto> PStr ''spam'']"
  have p: "group_policy ?g = RequireMutuallyExclusive" by (simp add: test_group_def)
  have n0: "present_count ?g ?v0 = 0" and n2: "2 \<le> present_count ?g ?v2" and n1: "present_count ?g ?v1 = 1"
    by (simp_all add: present_count_filter test_group_simps)
  have everyone: "options_hint (group_options ?g) =
      nl @ ''  '' @ dq @ ''--foo'' @ dq @ nl @ ''  '' @ dq @ ''--bar'' @ dq @ nl @ ''  '' @ dq @ ''--spam'' @ dq"
    by (simp add: test_group_simps)
  have given: "options_hint (filter (present ?v2) (group_options ?g)) =
                 nl @ ''  '' @ dq @ ''--foo'' @ dq @ nl @ ''  '' @ dq @ ''--bar'' @ dq"
    by (simp add: test_group_simps)
  note t0 = require_mutually_exclusive_validation[OF p, of ?v0]
    and t2 = require_mutually_exclusive_validation[OF p, of ?v2]
    and t1 = require_mutually_exclusive_validation[OF p, of ?v1]
  from t0 n0 have f0: "validate ?g ?v0 =
      Inl (UsageError (''Missing one of the required mutually exclusive options:''
             @ options_hint (group_options ?g)))" by blast
  from t2 n2 have f2: "validate ?g ?v2 =
      Inl (UsageError (''The given mutually exclusive options cannot be used at the same time:''
             @ options_hint (filter (present ?v2) (group_options ?g))))" by blast
  from t1 n1 have ok: "validate ?g ?v1 = Inr ()" by simp
  from f0 have f0': "validate ?g ?v0 =
       Inl (UsageError (''Missing one of the required mutually exclusive options:''
              @ nl @ ''  '' @ dq @ ''--foo'' @ dq @ nl @ ''  '' @ dq @ ''--bar'' @ dq
              @ nl @ ''  '' @ dq @ ''--spam'' @ dq))"
    unfolding everyone by simp
  from f2 have f2': "validate ?g ?v2 =
       Inl (UsageError (''The given mutually exclusive options cannot be used at the same time:''
              @ nl @ ''  '' @ dq @ ''--foo'' @ dq @ nl @ ''  '' @ dq @ ''--bar'' @ dq))"
    unfolding given by simp
  from p f0' f2' ok show ?thesis by blast
qed

end
